theory Spec2Isabelle
  imports Complex_Main
begin

section \<open>Host environment and library objects\<close>

text \<open>
  The plugin is glue over three.js, the postprocessing library, the DOM and the Hyper
  host. Objects of those libraries are modelled by the constructor arguments the source
  passes and by the properties the source reads, writes or invokes. DOM elements and heap
  objects are identified by natural numbers; a store is a list indexed by reference.
  JavaScript numbers are modelled as reals.
\<close>

type_synonym canvas = nat
type_synonym ref = nat

datatype lib_call =
    New_Uniform
  | New_Effect string
  | Extends_EffectPass
  | New_CustomEffectPass
  | New_EffectPass
  | New_RenderPass
  | AddPass nat

datatype exn = Error string | TypeError string

datatype outcome = Returned | Thrown exn

datatype jsnum = Finite real | Infinity | NegInfinity | NaN

datatype uvalue = Number jsnum | Vector2 real real

type_synonym uniform_dict = "(string \<times> uvalue) list"

text \<open>
  The host parameters: which library call throws (and what), the uniforms of the
  library's own EffectPass material, the results of successive \<^verbatim>\<open>Math.random()\<close>
  calls, and \<^verbatim>\<open>window.devicePixelRatio\<close>.
\<close>

record host =
  throws :: "lib_call \<Rightarrow> exn option"
  effectMaterial :: uniform_dict
  Math_random :: "nat \<Rightarrow> real"
  devicePixelRatio :: real

definition lib :: "host \<Rightarrow> lib_call \<Rightarrow> 'a \<Rightarrow> exn + 'a" where
  "lib h c v = (case throws h c of Some e \<Rightarrow> Inl e | None \<Rightarrow> Inr v)"


subsection \<open>passes.js: effects and passes\<close>

datatype shader_source = crtFragmentShader | curvedFragmentShader

datatype BlendFunction = NORMAL | OtherBlend

record Effect =
  effect_name :: string
  fragmentShader :: shader_source
  blendFunction :: BlendFunction
  uniforms :: "(string \<times> real) list"

text \<open>
  \<^verbatim>\<open>OtherPass\<close> stands for any subclass of Pass that is neither RenderPass nor
  EffectPass. \<^verbatim>\<open>fullscreenMaterial\<close> is what \<^verbatim>\<open>getFullscreenMaterial()\<close> returns:
  \<^verbatim>\<open>None\<close> for null, otherwise the material's uniforms.
\<close>

datatype pass_class = RenderPass | EffectPass | CustomEffectPass | OtherPass

record Pass =
  pass_class :: pass_class
  renderToScreen :: bool
  effects :: "Effect list"
  fullscreenMaterial :: "uniform_dict option"

datatype log_entry = Log string | LogError exn

text \<open>
  The constructors of the library. A pass does not render to screen until the property is
  assigned; a RenderPass has no fullscreen material, an EffectPass has the library's.
\<close>

definition new_Effect :: "string \<Rightarrow> shader_source \<Rightarrow> BlendFunction \<Rightarrow> (string \<times> real) list \<Rightarrow> Effect" where
  "new_Effect n src bf us =
     \<lparr>effect_name = n, fragmentShader = src, blendFunction = bf, uniforms = us\<rparr>"

definition new_EffectPass :: "host \<Rightarrow> pass_class \<Rightarrow> Effect list \<Rightarrow> Pass" where
  "new_EffectPass h cls es =
     \<lparr>pass_class = cls, renderToScreen = False, effects = es,
      fullscreenMaterial = Some (effectMaterial h)\<rparr>"

definition new_RenderPass :: Pass where
  "new_RenderPass =
     \<lparr>pass_class = RenderPass, renderToScreen = False, effects = [],
      fullscreenMaterial = None\<rparr>"

definition instanceof_EffectPass :: "Pass \<Rightarrow> bool" where
  "instanceof_EffectPass p = (pass_class p = EffectPass \<or> pass_class p = CustomEffectPass)"

text \<open>The body of the \<^verbatim>\<open>try\<close> block of the pass factory, in evaluation order.\<close>

definition createPasses_try :: "host \<Rightarrow> exn + Pass list" where
  "createPasses_try h =
     (case lib h New_Uniform (0.5 :: real) of Inl e \<Rightarrow> Inl e | Inr u \<Rightarrow>
      case lib h (New_Effect ''crtEffect'')
             (new_Effect ''crtEffect'' crtFragmentShader NORMAL [(''separation'', u)]) of
        Inl e \<Rightarrow> Inl e | Inr crtEffect \<Rightarrow>
      case lib h Extends_EffectPass () of Inl e \<Rightarrow> Inl e | Inr _ \<Rightarrow>
      case lib h New_CustomEffectPass (new_EffectPass h CustomEffectPass [crtEffect]) of
        Inl e \<Rightarrow> Inl e | Inr p1 \<Rightarrow>
      case lib h (New_Effect ''curvedFragmentEffect'')
             (new_Effect ''curvedFragmentEffect'' curvedFragmentShader NORMAL []) of
        Inl e \<Rightarrow> Inl e | Inr curved \<Rightarrow>
      case lib h New_EffectPass (new_EffectPass h EffectPass [curved]) of
        Inl e \<Rightarrow> Inl e | Inr p2 \<Rightarrow>
      Inr [p1, p2])"

text \<open>
  The default export of passes.js: the list of passes, or \<^verbatim>\<open>undefined\<close> (\<open>None\<close>)
  after the \<^verbatim>\<open>catch\<close> has logged the exception.
\<close>

definition createPasses :: "host \<Rightarrow> log_entry list \<Rightarrow> Pass list option \<times> log_entry list" where
  "createPasses h console =
     (case createPasses_try h of
        Inr ps \<Rightarrow> (Some ps, console)
      | Inl e \<Rightarrow> (None, console @ [LogError e]))"

text \<open>
  \<^verbatim>\<open>CustomEffectPass.render\<close>, up to the \<^verbatim>\<open>super\<close> call: the closure variable
  \<^verbatim>\<open>crtEffect\<close> is the one effect the pass was built from; \<open>r\<close> is the value of
  \<^verbatim>\<open>Math.random()\<close>.
\<close>

definition set_uniform :: "string \<Rightarrow> 'v \<Rightarrow> (string \<times> 'v) list \<Rightarrow> (string \<times> 'v) list" where
  "set_uniform k v us = map (\<lambda>(k', x). if k' = k then (k', v) else (k', x)) us"

definition perturb :: "real \<Rightarrow> real \<Rightarrow> real" where
  "perturb prevSeparation r = min 1.0 (max 0.0 (prevSeparation + (r - 0.5) / 5))"

definition CustomEffectPass_render :: "real \<Rightarrow> Pass \<Rightarrow> outcome \<times> Pass" where
  "CustomEffectPass_render r p =
     (case effects p of
        [] \<Rightarrow> (Thrown (TypeError ''crtEffect''), p)
      | crtEffect # rest \<Rightarrow>
          (case map_of (uniforms crtEffect) ''separation'' of
             None \<Rightarrow> (Thrown (TypeError ''separation''), p)
           | Some prevSeparation \<Rightarrow>
               (Returned,
                p\<lparr>effects :=
                    crtEffect\<lparr>uniforms :=
                      set_uniform ''separation'' (perturb prevSeparation r) (uniforms crtEffect)\<rparr>
                    # rest\<rparr>)))"

definition separation :: "Pass \<Rightarrow> real option" where
  "separation p = (case effects p of [] \<Rightarrow> None | e # _ \<Rightarrow> map_of (uniforms e) ''separation'')"

text \<open>Successive invocations of \<^verbatim>\<open>render\<close> on one pass, one random value each.\<close>

fun renders :: "real list \<Rightarrow> Pass \<Rightarrow> outcome \<times> Pass" where
  "renders [] p = (Returned, p)"
| "renders (r # rs) p =
     (case CustomEffectPass_render r p of
        (Returned, p') \<Rightarrow> renders rs p'
      | (Thrown e, p') \<Rightarrow> (Thrown e, p'))"

subsection \<open>three.js objects, the DOM and the window\<close>

datatype texture_filter = LinearFilter | LinearMipMapLinearFilter

record Texture =
  tex_image :: "canvas option"
  minFilter :: texture_filter
  needsUpdate :: bool
  tex_disposed :: bool

record MeshBasicMaterial =
  mat_color :: int
  mat_map :: ref
  transparent :: bool

record Mesh =
  geometry :: "real \<times> real"
  mesh_material :: ref

record WebGLRenderer =
  domElement :: nat
  preserveDrawingBuffer :: bool
  alpha :: bool
  pixelRatio :: real
  renderer_size :: "real \<times> real"

record OrthographicCamera =
  cam_left :: real
  cam_right :: real
  cam_top :: real
  cam_bottom :: real
  cam_near :: real
  cam_far :: real
  position_z :: real

record EffectComposer =
  composer_passes :: "ref list"
  composer_size :: "(real \<times> real) option"

record Clock =
  started :: bool

record hyper_term =
  termRef :: nat
  xterm_screen :: nat

record MutationRecord =
  removedNodes :: "canvas list"
  addedNodes :: "canvas list"

datatype listener = ResizeSync | ResizeOnce

record term_props =
  isTermActive :: bool
  onDecorated_prop :: bool

text \<open>
  Everything outside the component: the object stores, the console, the window's pending
  animation frames (each with the materials its callback closed over), the DOM of the
  term (the canvases under the xterm screen, the bounding rectangle of the terminal
  element, the canvases whose opacity was set to 0, the children appended to the
  container), the resize listeners of the terminal and the calls forwarded to the chained
  \<^verbatim>\<open>onDecorated\<close> prop.
\<close>

record world =
  textures :: "Texture list"
  materials :: "MeshBasicMaterial list"
  passStore :: "Pass list"
  console :: "log_entry list"
  rafPending :: "(nat \<times> ref list) list"
  rafNext :: nat
  randomCalls :: nat
  screenCanvases :: "canvas list"
  boundingRect :: "real \<times> real"
  opacityZero :: "canvas list"
  nextElement :: nat
  appended :: "(nat \<times> nat) list"
  resizeListeners :: "listener list"
  decoratedCalls :: "hyper_term option list"

section \<open>src/index.js (second version): the HyperPostProcessing component\<close>

record component =
  props :: term_props
  isInit :: bool
  term' :: "hyper_term option"
  xTermScreen :: "nat option"
  xTermLayerMap :: "(canvas \<times> ref) list"
  container :: "nat option"
  canvas' :: "nat option"
  clock :: "Clock option"
  scene :: "Mesh list option"
  renderer :: "WebGLRenderer option"
  camera :: "OrthographicCamera option"
  composer :: "EffectComposer option"
  passes :: "ref list"
  shaderPasses :: "ref list"
  layerObserver :: "nat option"
  animationId :: "nat option"

text \<open>The constructor.\<close>

definition constructor :: "term_props \<Rightarrow> component" where
  "constructor p =
     \<lparr>props = p, isInit = False, term' = None, xTermScreen = None, xTermLayerMap = [],
      container = None, canvas' = None, clock = None, scene = None, renderer = None,
      camera = None, composer = None, passes = [], shaderPasses = [],
      layerObserver = None, animationId = None\<rparr>"

definition console_log :: "string \<Rightarrow> world \<Rightarrow> world" where
  "console_log s w = w\<lparr>console := console w @ [Log s]\<rparr>"

definition console_error :: "exn \<Rightarrow> world \<Rightarrow> world" where
  "console_error e w = w\<lparr>console := console w @ [LogError e]\<rparr>"

text \<open>\<^verbatim>\<open>Map.prototype.set\<close> and \<^verbatim>\<open>get\<close> on an insertion-ordered map.\<close>

fun Map_set :: "'k \<Rightarrow> 'v \<Rightarrow> ('k \<times> 'v) list \<Rightarrow> ('k \<times> 'v) list" where
  "Map_set k v [] = [(k, v)]"
| "Map_set k v ((k', v') # m) = (if k' = k then (k, v) # m else (k', v') # Map_set k v m)"

definition Map_get :: "('k \<times> 'v) list \<Rightarrow> 'k \<Rightarrow> 'v option" where
  "Map_get m k = map_of m k"

text \<open>
  \<^verbatim>\<open>new CanvasTexture(canvas)\<close> allocates a texture (of \<^verbatim>\<open>undefined\<close> when the argument
  is); \<^verbatim>\<open>texture.minFilter = f\<close> and \<^verbatim>\<open>new MeshBasicMaterial\<close> with the options of
  the source follow.
\<close>

definition new_CanvasTexture :: "canvas option \<Rightarrow> world \<Rightarrow> ref \<times> world" where
  "new_CanvasTexture cv w =
     (length (textures w),
      w\<lparr>textures := textures w @
           [\<lparr>tex_image = cv, minFilter = LinearMipMapLinearFilter, needsUpdate = True,
             tex_disposed = False\<rparr>]\<rparr>)"

definition set_minFilter :: "ref \<Rightarrow> texture_filter \<Rightarrow> world \<Rightarrow> world" where
  "set_minFilter t f w = w\<lparr>textures := (textures w)[t := (textures w ! t)\<lparr>minFilter := f\<rparr>]\<rparr>"

definition new_MeshBasicMaterial :: "ref \<Rightarrow> world \<Rightarrow> ref \<times> world" where
  "new_MeshBasicMaterial t w =
     (length (materials w),
      w\<lparr>materials := materials w @
           [\<lparr>mat_color = 0xFFFFFF, mat_map = t, transparent = True\<rparr>]\<rparr>)"

text \<open>The texture \<^verbatim>\<open>_setupScene\<close> builds for a canvas.\<close>

definition layer_texture :: "canvas \<Rightarrow> Texture" where
  "layer_texture cv = \<lparr>tex_image = Some cv, minFilter = LinearFilter, needsUpdate = True, tex_disposed = False\<rparr>"

text \<open>The loop over the render layers in \<^verbatim>\<open>_setupScene\<close>.\<close>

fun setupLayers :: "canvas list \<Rightarrow> real \<times> real \<Rightarrow> Mesh list \<Rightarrow> (canvas \<times> ref) list \<Rightarrow> world
      \<Rightarrow> Mesh list \<times> (canvas \<times> ref) list \<times> world" where
  "setupLayers [] wh sc lm w = (sc, lm, w)"
| "setupLayers (cv # rest) wh sc lm w =
     (let (texture, w1) = new_CanvasTexture (Some cv) w;
          w2 = set_minFilter texture LinearFilter w1;
          (material, w3) = new_MeshBasicMaterial texture w2;
          mesh = \<lparr>geometry = wh, mesh_material = material\<rparr>
      in setupLayers rest wh (sc @ [mesh]) (Map_set cv material lm) w3)"

definition setupScene :: "host \<Rightarrow> canvas list \<Rightarrow> component \<Rightarrow> world \<Rightarrow> outcome \<times> component \<times> world" where
  "setupScene h renderLayers c w =
     (case term' c of
        None \<Rightarrow> (Thrown (TypeError ''_term''), c, w)
      | Some t \<Rightarrow>
          (let (width, height) = boundingRect w;
               cv = nextElement w;
               w1 = w\<lparr>nextElement := Suc cv\<rparr>;
               c1 = c\<lparr>canvas' := Some cv,
                      scene := Some [],
                      renderer := Some \<lparr>domElement = cv, preserveDrawingBuffer = True,
                                        alpha = True, pixelRatio = devicePixelRatio h,
                                        renderer_size = (width, height)\<rparr>,
                      camera := Some \<lparr>cam_left = - (width / 2), cam_right = width / 2,
                                      cam_top = height / 2, cam_bottom = - (height / 2),
                                      cam_near = 1, cam_far = 1000, position_z = 1\<rparr>,
                      composer := Some \<lparr>composer_passes = [], composer_size = None\<rparr>\<rparr>;
               (sc, lm, w2) = setupLayers renderLayers (width, height) [] (xTermLayerMap c1) w1;
               c2 = c1\<lparr>scene := Some sc, xTermLayerMap := lm\<rparr>
           in (case container c2 of
                 None \<Rightarrow> (Thrown (TypeError ''_container''), c2, w2)
               | Some ct \<Rightarrow> (Returned, c2, w2\<lparr>appended := appended w2 @ [(ct, cv)]\<rparr>))))"

text \<open>
  \<^verbatim>\<open>EffectComposer.render\<close> invokes \<^verbatim>\<open>render\<close> of every pass of the chain; only
  the override of \<^verbatim>\<open>CustomEffectPass\<close> changes modelled state.
\<close>

fun composer_render :: "host \<Rightarrow> ref list \<Rightarrow> world \<Rightarrow> outcome \<times> world" where
  "composer_render h [] w = (Returned, w)"
| "composer_render h (r # rs) w =
     (if pass_class (passStore w ! r) = CustomEffectPass then
        (let x = Math_random h (randomCalls w);
             w1 = w\<lparr>randomCalls := Suc (randomCalls w)\<rparr>;
             (out, p) = CustomEffectPass_render x (passStore w1 ! r);
             w2 = w1\<lparr>passStore := (passStore w1)[r := p]\<rparr>
         in (case out of Returned \<Rightarrow> composer_render h rs w2 | Thrown e \<Rightarrow> (Thrown e, w2)))
      else composer_render h rs w)"

fun set_needsUpdate :: "ref list \<Rightarrow> world \<Rightarrow> world" where
  "set_needsUpdate [] w = w"
| "set_needsUpdate (m # ms) w =
     (let t = mat_map (materials w ! m)
      in set_needsUpdate ms (w\<lparr>textures := (textures w)[t := (textures w ! t)\<lparr>needsUpdate := True\<rparr>]\<rparr>))"

text \<open>
  The frame callback \<^verbatim>\<open>render\<close> inside \<^verbatim>\<open>_startAnimationLoop\<close>. The loop over
  \<^verbatim>\<open>timeUniforms\<close> assigns the property \<^verbatim>\<open>value\<close> of the array itself, which changes
  no uniform; it reads the clock when the array is not empty.
\<close>

definition render_frame :: "host \<Rightarrow> ref list \<Rightarrow> nat \<Rightarrow> component \<Rightarrow> world \<Rightarrow> outcome \<times> component \<times> world" where
  "render_frame h xTermMaterials timeUniformsLength c w =
     (let fid = rafNext w;
          w1 = w\<lparr>rafNext := Suc fid, rafPending := rafPending w @ [(fid, xTermMaterials)]\<rparr>;
          c1 = c\<lparr>animationId := Some fid\<rparr>
      in if 0 < timeUniformsLength \<and> clock c1 = None then (Thrown (TypeError ''_clock''), c1, w1)
         else
           (let w2 = set_needsUpdate xTermMaterials w1
            in (case composer c1 of
                  None \<Rightarrow> (Thrown (TypeError ''_composer''), c1, w2)
                | Some ec \<Rightarrow>
                    (if clock c1 = None then (Thrown (TypeError ''_clock''), c1, w2)
                     else (let (out, w3) = composer_render h (composer_passes ec) w2
                           in (out, c1, w3))))))"

definition has_time_uniform :: "Pass \<Rightarrow> bool" where
  "has_time_uniform p =
     (case fullscreenMaterial p of None \<Rightarrow> False | Some us \<Rightarrow> map_of us ''time'' \<noteq> None)"

definition startAnimationLoop :: "host \<Rightarrow> component \<Rightarrow> world \<Rightarrow> outcome \<times> component \<times> world" where
  "startAnimationLoop h c w =
     (let xTermMaterials = map snd (xTermLayerMap c)
      in if list_ex (\<lambda>r. fullscreenMaterial (passStore w ! r) = None) (shaderPasses c)
         then (Thrown (TypeError ''getFullscreenMaterial''), c, w)
         else (let timeUniforms = filter (\<lambda>r. has_time_uniform (passStore w ! r)) (shaderPasses c)
               in render_frame h xTermMaterials (length timeUniforms) c w))"

definition cancelAnimationLoop :: "component \<Rightarrow> world \<Rightarrow> world" where
  "cancelAnimationLoop c w =
     (case animationId c of
        None \<Rightarrow> w
      | Some fid \<Rightarrow> w\<lparr>rafPending := filter (\<lambda>(i, ms). i \<noteq> fid) (rafPending w)\<rparr>)"

definition componentWillReceiveProps :: "host \<Rightarrow> term_props \<Rightarrow> component \<Rightarrow> world \<Rightarrow> outcome \<times> component \<times> world" where
  "componentWillReceiveProps h newProps c w =
     (if \<not> isInit c then (Returned, c, w)
      else if isTermActive (props c) \<and> \<not> isTermActive newProps
        then (Returned, c, cancelAnimationLoop c w)
      else if \<not> isTermActive (props c) \<and> isTermActive newProps
        then startAnimationLoop h c w
      else (Returned, c, w))"





text \<open>The second listener, \<^verbatim>\<open>resizeOnce\<close>.\<close>

definition resizeOnce :: "host \<Rightarrow> component \<Rightarrow> world \<Rightarrow> outcome \<times> component \<times> world" where
  "resizeOnce h c w =
     (case term' c of
        None \<Rightarrow> (Thrown (TypeError ''_term''), c, w)
      | Some t \<Rightarrow>
          (let w1 = w\<lparr>resizeListeners := remove1 ResizeOnce (resizeListeners w)\<rparr>
           in (case clock c of
                 None \<Rightarrow> (Thrown (TypeError ''_clock''), c, w1)
               | Some k \<Rightarrow> startAnimationLoop h (c\<lparr>clock := Some (k\<lparr>started := True\<rparr>)\<rparr>) w1)))"

text \<open>
  The \<^verbatim>\<open>try\<close> block of \<^verbatim>\<open>_init\<close> that stores the passes.
  \<^verbatim>\<open>EffectComposer.addPass\<close> appends the pass to the composer's chain. Every object of
  the pass store is an instance of Pass, so the filter of \<^verbatim>\<open>_shaderPasses\<close> keeps the
  passes that are not EffectPass instances.
\<close>

fun addPasses :: "host \<Rightarrow> nat \<Rightarrow> ref list \<Rightarrow> component \<Rightarrow> outcome \<times> component" where
  "addPasses h i [] c = (Returned, c)"
| "addPasses h i (p # ps) c =
     (case composer c of
        None \<Rightarrow> (Thrown (TypeError ''_composer''), c)
      | Some ec \<Rightarrow>
          (case throws h (AddPass i) of
             Some e \<Rightarrow> (Thrown e, c)
           | None \<Rightarrow>
               addPasses h (Suc i) ps
                 (c\<lparr>composer := Some (ec\<lparr>composer_passes := composer_passes ec @ [p]\<rparr>)\<rparr>)))"

definition init_try :: "host \<Rightarrow> ref list \<Rightarrow> component \<Rightarrow> world \<Rightarrow> outcome \<times> component \<times> world" where
  "init_try h created c w =
     (case throws h New_RenderPass of
        Some e \<Rightarrow> (Thrown e, c, w)
      | None \<Rightarrow>
          (let rp = length (passStore w);
               w1 = w\<lparr>passStore := passStore w @ [new_RenderPass]\<rparr>;
               c1 = c\<lparr>passes := rp # created\<rparr>;
               lastp = last (passes c1);
               w2 = w1\<lparr>passStore :=
                      (passStore w1)[lastp := (passStore w1 ! lastp)\<lparr>renderToScreen := True\<rparr>]\<rparr>;
               (out, c2) = addPasses h 0 (passes c1) c1
           in (case out of
                 Thrown e \<Rightarrow> (Thrown e, c2, w2)
               | Returned \<Rightarrow>
                   (Returned,
                    c2\<lparr>shaderPasses :=
                         filter (\<lambda>r. \<not> instanceof_EffectPass (passStore w2 ! r)) (tl (passes c2))\<rparr>,
                    w2))))"

text \<open>
  What the \<^verbatim>\<open>try\<close> block leaves in the pass store for the passes \<open>ps\<close> of the
  factory when nothing throws: the passes, the last one rendering to screen, then the
  RenderPass.
\<close>

definition stored_passes :: "Pass list \<Rightarrow> Pass list" where
  "stored_passes ps = butlast ps @ [(last ps)\<lparr>renderToScreen := True\<rparr>] @ [new_RenderPass]"

text \<open>
  \<^verbatim>\<open>_init\<close> after the check of the pass list. The passes the factory built enter the
  pass store here.
\<close>

definition init_body :: "host \<Rightarrow> Pass list \<Rightarrow> component \<Rightarrow> world \<Rightarrow> outcome \<times> component \<times> world" where
  "init_body h ps c w =
     (let w3 = console_log ''checked length of passes'' w;
          created = [length (passStore w3) ..< length (passStore w3) + length ps];
          w4 = w3\<lparr>passStore := passStore w3 @ ps\<rparr>;
          c1 = c\<lparr>isInit := True\<rparr>
      in (case term' c1 of
            None \<Rightarrow> (Thrown (TypeError ''_term''), c1, w4)
          | Some t \<Rightarrow>
              (let c2 = c1\<lparr>container := Some (termRef t), xTermScreen := Some (xterm_screen t)\<rparr>;
                   renderLayers = screenCanvases w4;
                   w5 = w4\<lparr>opacityZero := opacityZero w4 @ renderLayers\<rparr>
               in (case setupScene h renderLayers c2 w5 of
                     (Thrown e, c3, w6) \<Rightarrow> (Thrown e, c3, w6)
                   | (Returned, c3, w6) \<Rightarrow>
                       (let c4 = c3\<lparr>clock := Some \<lparr>started = False\<rparr>\<rparr>;
                            (out, c5, w7) = init_try h created c4 w6;
                            w8 = (case out of Thrown e \<Rightarrow> console_error e w7 | Returned \<Rightarrow> w7);
                            w9 = console_log ''3'' w8;
                            c6 = c5\<lparr>layerObserver := xTermScreen c5\<rparr>;
                            w10 = console_log ''2'' w9;
                            w11 = w10\<lparr>resizeListeners := resizeListeners w10 @ [ResizeSync]\<rparr>;
                            w12 = console_log ''1'' w11;
                            w13 = w12\<lparr>resizeListeners := resizeListeners w12 @ [ResizeOnce]\<rparr>
                        in (Returned, c6, console_log ''end of _init'' w13))))))"

definition init :: "host \<Rightarrow> component \<Rightarrow> world \<Rightarrow> outcome \<times> component \<times> world" where
  "init h c w =
     (let w1 = console_log ''start init'' w;
          (passes_opt, con) = createPasses h (console w1);
          w2 = console_log ''made passes'' (w1\<lparr>console := con\<rparr>)
      in (case passes_opt of
            None \<Rightarrow> (Returned, c, w2)
          | Some ps \<Rightarrow> if length ps = 0 then (Returned, c, w2) else init_body h ps c w2))"

text \<open>
  The chained call \<^verbatim>\<open>if (this.props.onDecorated) this.props.onDecorated(term)\<close>: the
  host's callback is opaque, the call is recorded.
\<close>

definition forward_onDecorated :: "hyper_term option \<Rightarrow> component \<Rightarrow> world \<Rightarrow> world" where
  "forward_onDecorated t c w =
     (if onDecorated_prop (props c) then w\<lparr>decoratedCalls := decoratedCalls w @ [t]\<rparr> else w)"

definition onDecorated :: "host \<Rightarrow> hyper_term option \<Rightarrow> component \<Rightarrow> world \<Rightarrow> outcome \<times> component \<times> world" where
  "onDecorated h t c w =
     (let w1 = forward_onDecorated t c w
      in if t = None \<or> isInit c then (Returned, c, w1)
         else init h (c\<lparr>term' := t\<rparr>) w1)"



text \<open>The mutation observer's callback and \<^verbatim>\<open>_replaceTexture\<close>.\<close>

definition replaceTexture :: "canvas \<Rightarrow> canvas option \<Rightarrow> component \<Rightarrow> world \<Rightarrow> outcome \<times> world" where
  "replaceTexture removedCanvas addedCanvas c w =
     (let affectedMaterial = Map_get (xTermLayerMap c) removedCanvas;
          (newTexture, w1) = new_CanvasTexture addedCanvas w;
          w2 = set_minFilter newTexture LinearFilter w1
      in (case affectedMaterial of
            None \<Rightarrow> (Thrown (TypeError ''map''), w2)
          | Some m \<Rightarrow>
              (let old = mat_map (materials w2 ! m);
                   w3 = w2\<lparr>textures := (textures w2)[old := (textures w2 ! old)\<lparr>tex_disposed := True\<rparr>]\<rparr>
               in (Returned,
                   w3\<lparr>materials := (materials w3)[m := (materials w3 ! m)\<lparr>mat_map := newTexture\<rparr>]\<rparr>))))"

fun replaceTextures :: "canvas list \<Rightarrow> canvas list \<Rightarrow> component \<Rightarrow> world \<Rightarrow> outcome \<times> world" where
  "replaceTextures [] added c w = (Returned, w)"
| "replaceTextures (r # rs) added c w =
     (case replaceTexture r (case added of [] \<Rightarrow> None | a # _ \<Rightarrow> Some a) c w of
        (Returned, w') \<Rightarrow> replaceTextures rs (case added of [] \<Rightarrow> [] | _ # as \<Rightarrow> as) c w'
      | (Thrown e, w') \<Rightarrow> (Thrown e, w'))"

definition onCanvasReplacement :: "MutationRecord list \<Rightarrow> component \<Rightarrow> world \<Rightarrow> outcome \<times> world" where
  "onCanvasReplacement records c w =
     (case records of
        [] \<Rightarrow> (Thrown (TypeError ''removedNodes''), w)
      | e # _ \<Rightarrow> replaceTextures (removedNodes e) (addedNodes e) c w)"

section \<open>src/index.js (first version): the PostProcessing component\<close>

text \<open>
  The first version of the component keeps its layers in \<^verbatim>\<open>_layers\<close>, keyed by the
  class list of each canvas, and builds its passes with \<^verbatim>\<open>./shader-loader\<close>, which is
  not among the sources: its \<^verbatim>\<open>_init\<close> is a parameter here. \<^verbatim>\<open>_onDecorated\<close> reads
  and writes only \<^verbatim>\<open>props\<close>, \<^verbatim>\<open>_isInit\<close> and \<^verbatim>\<open>_term\<close>.
\<close>

definition onDecorated_v1 ::
  "(component \<Rightarrow> world \<Rightarrow> outcome \<times> component \<times> world) \<Rightarrow> hyper_term option \<Rightarrow> component \<Rightarrow> world
     \<Rightarrow> outcome \<times> component \<times> world" where
  "onDecorated_v1 init_v1 t c w =
     (let w1 = forward_onDecorated t c w
      in if t = None then (Returned, c, w1)
         else if \<not> isInit c then init_v1 (c\<lparr>term' := t\<rparr>) w1
         else (Returned, c, w1))"

section \<open>index.js: the theme\<close>

text \<open>
  Configuration objects live in a heap of objects, each a finite map from property names
  to values, so that mutation of an argument is visible. \<^verbatim>\<open>Object.assign\<close> copies the
  properties of each source, in order, into the target.
\<close>

datatype 'a jsvalue = JString string | JOther 'a

type_synonym 'a object = "string \<rightharpoonup> 'a jsvalue"

type_synonym 'a heap = "'a object list"

definition BRIGHT_GREEN :: string where
  "BRIGHT_GREEN = ''#28FC91''"

definition DARK_GREEN :: string where
  "DARK_GREEN = ''#0F2218''"

fun Object_assign :: "ref \<Rightarrow> ref list \<Rightarrow> 'a heap \<Rightarrow> 'a heap" where
  "Object_assign target [] hp = hp"
| "Object_assign target (s # ss) hp =
     Object_assign target ss (hp[target := (hp ! target) ++ (hp ! s)])"

text \<open>The object literal with the four colors.\<close>

definition color_overrides :: "'a object" where
  "color_overrides =
     [''foregroundColor'' \<mapsto> JString BRIGHT_GREEN,
      ''backgroundColor'' \<mapsto> JString DARK_GREEN,
      ''borderColor'' \<mapsto> JString BRIGHT_GREEN,
      ''cursorColor'' \<mapsto> JString ''#40FFFF'']"

definition decorateConfig :: "ref \<Rightarrow> 'a heap \<Rightarrow> ref \<times> 'a heap" where
  "decorateConfig config hp =
     (let target = length hp;
          hp1 = hp @ [Map.empty];
          overrides = length hp1;
          hp2 = hp1 @ [color_overrides]
      in (target, Object_assign target [config, overrides] hp2))"

section \<open>Example states\<close>

definition example_host :: host where
  "example_host =
     \<lparr>throws = (\<lambda>c. None),
      effectMaterial = [(''resolution'', Vector2 0 0), (''time'', Number (Finite 0))],
      Math_random = (\<lambda>n. 99 / 100),
      devicePixelRatio = 2\<rparr>"

definition failing_host :: host where
  "failing_host =
     example_host\<lparr>throws := (\<lambda>c. if c = New_Effect ''curvedFragmentEffect''
                                   then Some (Error ''shader'') else None)\<rparr>"

definition example_term :: hyper_term where
  "example_term = \<lparr>termRef = 1, xterm_screen = 2\<rparr>"

definition example_world :: world where
  "example_world =
     \<lparr>textures = [], materials = [], passStore = [], console = [], rafPending = [],
      rafNext = 0, randomCalls = 0, screenCanvases = [10, 11], boundingRect = (800, 600),
      opacityZero = [], nextElement = 100, appended = [], resizeListeners = [],
      decoratedCalls = []\<rparr>"

definition example_component :: component where
  "example_component =
     (constructor \<lparr>isTermActive = True, onDecorated_prop = True\<rparr>)\<lparr>term' := Some example_term\<rparr>"

text \<open>
  The component after \<^verbatim>\<open>_onDecorated\<close> on an inactive term, and after the term
  became active (React assigns \<^verbatim>\<open>this.props\<close> once \<^verbatim>\<open>componentWillReceiveProps\<close> has
  returned).
\<close>

definition inactive_props :: term_props where
  "inactive_props = \<lparr>isTermActive = False, onDecorated_prop = False\<rparr>"

definition active_props :: term_props where
  "active_props = \<lparr>isTermActive = True, onDecorated_prop = False\<rparr>"

definition initialized :: "component \<times> world" where
  "initialized =
     snd (onDecorated example_host (Some example_term) (constructor inactive_props) example_world)"

definition activated :: "component \<times> world" where
  "activated =
     (case componentWillReceiveProps example_host active_props (fst initialized) (snd initialized) of
        (out, c, w) \<Rightarrow> (c\<lparr>props := active_props\<rparr>, w))"

text \<open>The activated component after the first resize event has run \<^verbatim>\<open>resizeOnce\<close>.\<close>

definition resized :: "component \<times> world" where
  "resized =
     (case resizeOnce example_host (fst activated) (snd activated) of (out, c, w) \<Rightarrow> (c, w))"




text \<open>Two mutation records, each replacing one render-layer canvas.\<close>

definition replace_first :: "MutationRecord" where
  "replace_first = \<lparr>removedNodes = [10], addedNodes = [20]\<rparr>"


section \<open>Properties\<close>

subsection \<open>The pass factory and the CRT effect\<close>

lemma perturb_range: "0 \<le> perturb s r \<and> perturb s r \<le> 1"
  by (simp add: perturb_def)

lemma map_of_set_uniform:
  "map_of (set_uniform k v us) k' = (if k' = k \<and> map_of us k \<noteq> None then Some v else map_of us k')"
  by (induction us) (auto simp: set_uniform_def)

lemma separation_render:
  "separation p = Some s \<Longrightarrow>
   CustomEffectPass_render r p = (out, p') \<Longrightarrow> out = Returned \<and> separation p' = Some (perturb s r)"
  by (auto simp: separation_def CustomEffectPass_render_def map_of_set_uniform split: list.splits)

lemma renders_range:
  "separation p = Some s \<Longrightarrow> 0 \<le> s \<Longrightarrow> s \<le> 1 \<Longrightarrow>
   \<exists>p' s'. renders rs p = (Returned, p') \<and> separation p' = Some s' \<and> 0 \<le> s' \<and> s' \<le> 1"
proof (induction rs arbitrary: p s)
  case Nil
  then show ?case by simp
next
  case (Cons r rs)
  obtain out p1 where r1: "CustomEffectPass_render r p = (out, p1)" by (cases "CustomEffectPass_render r p")
  from separation_render[OF Cons.prems(1) r1]
  have o: "out = Returned" and s1: "separation p1 = Some (perturb s r)" by auto
  from Cons.IH[OF s1] perturb_range[of s r]
  show ?case using r1 o by simp
qed

lemma createPasses_try_Inr:
  "createPasses_try h = Inr ps \<Longrightarrow>
   ps = [new_EffectPass h CustomEffectPass
            [new_Effect ''crtEffect'' crtFragmentShader NORMAL [(''separation'', 0.5)]],
          new_EffectPass h EffectPass
            [new_Effect ''curvedFragmentEffect'' curvedFragmentShader NORMAL []]]"
  by (auto simp: createPasses_try_def lib_def split: option.splits)

text \<open>
  C2. When none of the library calls of the factory throws, the factory returns exactly
  two passes: first the CRT pass (a \<^verbatim>\<open>CustomEffectPass\<close>, a subclass of EffectPass,
  over the effect \<^verbatim>\<open>crtEffect\<close>), second the curvature pass (an EffectPass over the
  effect \<^verbatim>\<open>curvedFragmentEffect\<close>); nothing is logged.
\<close>

theorem createPasses_two_passes:
  assumes "throws h New_Uniform = None"
    and "throws h (New_Effect ''crtEffect'') = None"
    and "throws h Extends_EffectPass = None"
    and "throws h New_CustomEffectPass = None"
    and "throws h (New_Effect ''curvedFragmentEffect'') = None"
    and "throws h New_EffectPass = None"
  shows "\<exists>crt curved.
      createPasses h con = (Some [crt, curved], con) \<and>
      crt = new_EffectPass h CustomEffectPass
              [new_Effect ''crtEffect'' crtFragmentShader NORMAL [(''separation'', 0.5)]] \<and>
      curved = new_EffectPass h EffectPass
              [new_Effect ''curvedFragmentEffect'' curvedFragmentShader NORMAL []] \<and>
      instanceof_EffectPass crt \<and> instanceof_EffectPass curved"
  using assms
  by (simp add: createPasses_def createPasses_try_def lib_def instanceof_EffectPass_def
      new_EffectPass_def)

theorem createPasses_two_passes_witness:
  "\<exists>crt curved.
      createPasses example_host [] = (Some [crt, curved], []) \<and>
      map effect_name (effects crt) = [''crtEffect''] \<and>
      map effect_name (effects curved) = [''curvedFragmentEffect''] \<and>
      pass_class crt = CustomEffectPass \<and> pass_class curved = EffectPass"
  using createPasses_two_passes[of example_host "[]"]
  by (simp add: example_host_def new_EffectPass_def new_Effect_def)

text \<open>
  C9. The separation uniform of the CRT pass the factory built starts at 0.5 and, after
  any sequence of \<^verbatim>\<open>render\<close> invocations with any values of \<^verbatim>\<open>Math.random()\<close>,
  every invocation returns and the uniform lies in the closed interval from 0 to 1.
  JavaScript numbers are read as reals; the bound rests on \<^verbatim>\<open>Math.min\<close> and
  \<^verbatim>\<open>Math.max\<close> alone.
\<close>

theorem separation_in_unit_interval:
  assumes "createPasses_try h = Inr (crt # rest)"
  shows "separation crt = Some 0.5 \<and>
         (\<exists>p s. renders rs crt = (Returned, p) \<and> separation p = Some s \<and> 0 \<le> s \<and> s \<le> 1)"
proof -
  from createPasses_try_Inr[OF assms]
  have s0: "separation crt = Some 0.5"
    by (simp add: separation_def new_EffectPass_def new_Effect_def)
  from renders_range[OF s0, of rs] show ?thesis using s0 by simp
qed

theorem separation_in_unit_interval_witness:
  "\<exists>p s. renders [99 / 100, 99 / 100, 99 / 100, 99 / 100, 99 / 100, 99 / 100]
            (new_EffectPass example_host CustomEffectPass
              [new_Effect ''crtEffect'' crtFragmentShader NORMAL [(''separation'', 0.5)]])
          = (Returned, p) \<and> separation p = Some s \<and> 0 \<le> s \<and> s \<le> 1"
proof -
  have h: "createPasses_try example_host =
      Inr (new_EffectPass example_host CustomEffectPass
              [new_Effect ''crtEffect'' crtFragmentShader NORMAL [(''separation'', 0.5)]]
           # [new_EffectPass example_host EffectPass
              [new_Effect ''curvedFragmentEffect'' curvedFragmentShader NORMAL []]])"
    by (simp add: createPasses_try_def lib_def example_host_def)
  from separation_in_unit_interval[OF h] show ?thesis by blast
qed

lemma separation_clamp_reached:
  "\<exists>p. renders [99 / 100, 99 / 100, 99 / 100, 99 / 100, 99 / 100, 99 / 100]
            (new_EffectPass example_host CustomEffectPass
              [new_Effect ''crtEffect'' crtFragmentShader NORMAL [(''separation'', 0.5)]])
          = (Returned, p) \<and> separation p = Some 1"
  by (simp add: CustomEffectPass_render_def new_EffectPass_def new_Effect_def set_uniform_def
      perturb_def separation_def)

subsection \<open>The theme\<close>

lemma decorateConfig_closed:
  "config < length hp \<Longrightarrow>
   decorateConfig config hp = (length hp, hp @ [(hp ! config) ++ color_overrides, color_overrides])"
  by (simp add: decorateConfig_def Let_def nth_append list_update_append color_overrides_def)

text \<open>
  C8. \<^verbatim>\<open>decorateConfig\<close> returns a new object; every object of the heap, the
  input config among them, is left as it was; the new object has the four theme colors
  and agrees with the input config on every other property.
\<close>

theorem decorateConfig_overrides_colors:
  assumes "config < length hp" and "decorateConfig config hp = (r, hp')"
  shows "r = length hp \<and>
         (\<forall>i < length hp. hp' ! i = hp ! i) \<and>
         hp' ! config = hp ! config \<and>
         (hp' ! r) ''foregroundColor'' = Some (JString ''#28FC91'') \<and>
         (hp' ! r) ''backgroundColor'' = Some (JString ''#0F2218'') \<and>
         (hp' ! r) ''borderColor'' = Some (JString ''#28FC91'') \<and>
         (hp' ! r) ''cursorColor'' = Some (JString ''#40FFFF'') \<and>
         (\<forall>k. k \<notin> {''foregroundColor'', ''backgroundColor'', ''borderColor'', ''cursorColor''}
              \<longrightarrow> (hp' ! r) k = (hp ! config) k)"
proof -
  from assms decorateConfig_closed[OF assms(1)]
  have r: "r = length hp" and hp': "hp' = hp @ [(hp ! config) ++ color_overrides, color_overrides]"
    by simp_all
  have new: "hp' ! length hp = (hp ! config) ++ color_overrides"
    by (simp add: hp' nth_append)
  have old: "\<forall>i < length hp. hp' ! i = hp ! i"
    by (simp add: hp' nth_append)
  show ?thesis
    using old assms(1) r
    by (simp add: new map_add_def color_overrides_def BRIGHT_GREEN_def DARK_GREEN_def)
qed

theorem decorateConfig_overrides_colors_witness:
  "\<exists>hp'. decorateConfig 0 [[''fontSize'' \<mapsto> JOther (12::nat), ''cursorColor'' \<mapsto> JString ''red'']]
           = (1, hp') \<and>
         (hp' ! 1) ''fontSize'' = Some (JOther 12) \<and>
         (hp' ! 1) ''cursorColor'' = Some (JString ''#40FFFF'') \<and>
         (hp' ! 0) ''cursorColor'' = Some (JString ''red'')"
proof -
  let ?hp = "[[''fontSize'' \<mapsto> JOther (12::nat), ''cursorColor'' \<mapsto> JString ''red'']]"
  obtain r hp' where d: "decorateConfig 0 ?hp = (r, hp')"
    by (cases "decorateConfig 0 ?hp")
  have c: "(0::nat) < length ?hp" by simp
  note T = decorateConfig_overrides_colors[OF c d]
  have r: "r = 1" using T[THEN conjunct1] by simp
  have a: "hp' ! 0 = ?hp ! 0"
    using T[THEN conjunct2, THEN conjunct2, THEN conjunct1] .
  have b: "(hp' ! 1) ''cursorColor'' = Some (JString ''#40FFFF'')"
    using T[THEN conjunct2, THEN conjunct2, THEN conjunct2, THEN conjunct2, THEN conjunct2,
        THEN conjunct2, THEN conjunct1] r by simp
  have "(hp' ! r) ''fontSize'' = (?hp ! 0) ''fontSize''"
    using T[THEN conjunct2, THEN conjunct2, THEN conjunct2, THEN conjunct2, THEN conjunct2,
        THEN conjunct2, THEN conjunct2, THEN spec, of "''fontSize''"] by simp
  then have e: "(hp' ! 1) ''fontSize'' = Some (JOther 12)" using r by simp
  show ?thesis
    using d r a b e by simp
qed

subsection \<open>Initialization\<close>


lemma map_of_Map_set: "map_of (Map_set k v m) = (map_of m)(k \<mapsto> v)"
  by (induction m) (auto simp: fun_eq_iff)

lemma setupLayers_closed:
  "setupLayers ls wh sc lm w =
     (sc @ map (\<lambda>i. \<lparr>geometry = wh, mesh_material = length (materials w) + i\<rparr>) [0..<length ls],
      fold (\<lambda>(cv, i). Map_set cv (length (materials w) + i)) (zip ls [0..<length ls]) lm,
      w\<lparr>textures := textures w @ map layer_texture ls,
        materials := materials w @
          map (\<lambda>i. \<lparr>mat_color = 0xFFFFFF, mat_map = length (textures w) + i, transparent = True\<rparr>)
            [0..<length ls]\<rparr>)"
proof (induction ls arbitrary: sc lm w)
  case Nil
  show ?case by simp
next
  case (Cons cv ls)
  have z: "zip (cv # ls) [0..<Suc (length ls)] = (cv, 0) # zip ls (map Suc [0..<length ls])"
    by (simp add: upt_conv_Cons map_Suc_upt del: upt_Suc)
  have f: "\<And>g (m::(canvas \<times> ref) list). fold (\<lambda>(cv, i). g cv i) (zip ls (map Suc [0..<length ls])) m
      = fold (\<lambda>(cv, i). g cv (Suc i)) (zip ls [0..<length ls]) m"
    by (simp add: zip_map2 fold_map comp_def split_def)
  show ?case
    apply (simp only: setupLayers.simps)
    apply (simp add: Let_def new_CanvasTexture_def set_minFilter_def new_MeshBasicMaterial_def
        Cons.IH layer_texture_def z f map_upt_Suc del: upt_Suc)
    done
qed


lemma fold_Map_set_other:
  "cv \<notin> set ls \<Longrightarrow> map_of (fold (\<lambda>(c, j). Map_set c (g j)) (zip ls js) lm) cv = map_of lm cv"
proof (induction ls arbitrary: js lm)
  case Nil
  then show ?case by simp
next
  case (Cons a ls)
  then show ?case by (cases js) (auto simp: map_of_Map_set)
qed

lemma fold_Map_set_nth:
  "distinct ls \<Longrightarrow> i < length ls \<Longrightarrow> length js = length ls \<Longrightarrow>
   map_of (fold (\<lambda>(c, j). Map_set c (g j)) (zip ls js) lm) (ls ! i) = Some (g (js ! i))"
proof (induction ls arbitrary: js lm i)
  case Nil
  then show ?case by simp
next
  case (Cons a ls)
  then obtain j js' where js: "js = j # js'" by (cases js) auto
  show ?case
  proof (cases i)
    case 0
    with Cons.prems js show ?thesis by (simp add: fold_Map_set_other map_of_Map_set)
  next
    case (Suc n)
    with Cons.prems js Cons.IH[of n js'] show ?thesis by simp
  qed
qed


lemma setupScene_closed:
  "term' c = Some t \<Longrightarrow> container c = Some ct \<Longrightarrow>
   setupScene h ls c w =
     (Returned,
      c\<lparr>canvas' := Some (nextElement w),
        renderer := Some \<lparr>domElement = nextElement w, preserveDrawingBuffer = True,
                          alpha = True, pixelRatio = devicePixelRatio h,
                          renderer_size = boundingRect w\<rparr>,
        camera := Some \<lparr>cam_left = - (fst (boundingRect w) / 2), cam_right = fst (boundingRect w) / 2,
                        cam_top = snd (boundingRect w) / 2, cam_bottom = - (snd (boundingRect w) / 2),
                        cam_near = 1, cam_far = 1000, position_z = 1\<rparr>,
        composer := Some \<lparr>composer_passes = [], composer_size = None\<rparr>,
        scene := Some (map (\<lambda>i. \<lparr>geometry = boundingRect w, mesh_material = length (materials w) + i\<rparr>)
                         [0..<length ls]),
        xTermLayerMap := fold (\<lambda>(cv, i). Map_set cv (length (materials w) + i))
                           (zip ls [0..<length ls]) (xTermLayerMap c)\<rparr>,
      w\<lparr>nextElement := Suc (nextElement w),
        textures := textures w @ map layer_texture ls,
        materials := materials w @
          map (\<lambda>i. \<lparr>mat_color = 0xFFFFFF, mat_map = length (textures w) + i, transparent = True\<rparr>)
            [0..<length ls],
        appended := appended w @ [(ct, nextElement w)]\<rparr>)"
  by (simp add: setupScene_def setupLayers_closed Let_def split: prod.splits)

lemma addPasses_ok:
  "composer c = Some ec \<Longrightarrow> (\<And>j. throws h (AddPass j) = None) \<Longrightarrow>
   addPasses h i ps c = (Returned, c\<lparr>composer := Some (ec\<lparr>composer_passes := composer_passes ec @ ps\<rparr>)\<rparr>)"
proof (induction ps arbitrary: i c ec)
  case Nil
  then show ?case by simp
next
  case (Cons p ps)
  show ?case
    using Cons.prems Cons.IH[of "c\<lparr>composer := Some (ec\<lparr>composer_passes := composer_passes ec @ [p]\<rparr>)\<rparr>"
        "ec\<lparr>composer_passes := composer_passes ec @ [p]\<rparr>" "Suc i"]
    by simp
qed


lemma init_try_ok:
  assumes "composer c = Some ec" "throws h New_RenderPass = None" "\<And>j. throws h (AddPass j) = None"
  shows "init_try h created c w =
     (Returned,
      c\<lparr>passes := length (passStore w) # created,
        composer := Some (ec\<lparr>composer_passes := composer_passes ec @ length (passStore w) # created\<rparr>),
        shaderPasses := filter (\<lambda>r. \<not> instanceof_EffectPass
            ((passStore w @ [new_RenderPass])
               [last (length (passStore w) # created) :=
                  ((passStore w @ [new_RenderPass]) ! last (length (passStore w) # created))
                    \<lparr>renderToScreen := True\<rparr>] ! r)) created\<rparr>,
      w\<lparr>passStore := (passStore w @ [new_RenderPass])
               [last (length (passStore w) # created) :=
                  ((passStore w @ [new_RenderPass]) ! last (length (passStore w) # created))
                    \<lparr>renderToScreen := True\<rparr>]\<rparr>)"
proof -
  have ap: "addPasses h 0 (length (passStore w) # created) (c\<lparr>passes := length (passStore w) # created\<rparr>)
      = (Returned, c\<lparr>passes := length (passStore w) # created,
           composer := Some (ec\<lparr>composer_passes := composer_passes ec @ length (passStore w) # created\<rparr>)\<rparr>)"
    using addPasses_ok[of "c\<lparr>passes := length (passStore w) # created\<rparr>" ec h 0
        "length (passStore w) # created"] assms(1,3)
    by simp
  show ?thesis
    using assms(2) ap by (simp add: init_try_def Let_def del: addPasses.simps)
qed

lemma store_update_last:
  "ps \<noteq> [] \<Longrightarrow>
   (st @ ps @ [x])[length st + length ps - 1 := f ((st @ ps @ [x]) ! (length st + length ps - 1))]
     = st @ (butlast ps @ [f (last ps)]) @ [x]"
proof -
  assume "ps \<noteq> []"
  then obtain ys y where ps: "ps = ys @ [y]" by (metis append_butlast_last_id)
  have "(st @ (ys @ [y]) @ [x])[length st + length ys := f y] = st @ (ys @ [f y]) @ [x]"
    by (simp add: list_update_append)
  moreover have "(st @ (ys @ [y]) @ [x]) ! (length st + length ys) = y"
    by (simp add: nth_append)
  ultimately show ?thesis unfolding ps by simp
qed

lemma map_nth_middle:
  "map ((!) (st @ qs @ r)) [length st..<length st + length qs] = qs"
  by (rule nth_equalityI) (auto simp: nth_append)

lemma last_created: "ps \<noteq> [] \<Longrightarrow> last (m # [n..<n + length ps]) = n + length ps - 1"
  by (cases ps rule: rev_cases) auto


lemma init_body_ok:
  assumes t: "term' c = Some t" and ne: "ps \<noteq> []"
    and rp: "throws h New_RenderPass = None" and ap: "\<And>j. throws h (AddPass j) = None"
  shows "init_body h ps c w =
     (Returned,
      c\<lparr>isInit := True,
        container := Some (termRef t),
        xTermScreen := Some (xterm_screen t),
        canvas' := Some (nextElement w),
        renderer := Some \<lparr>domElement = nextElement w, preserveDrawingBuffer = True,
                          alpha = True, pixelRatio = devicePixelRatio h,
                          renderer_size = boundingRect w\<rparr>,
        camera := Some \<lparr>cam_left = - (fst (boundingRect w) / 2), cam_right = fst (boundingRect w) / 2,
                        cam_top = snd (boundingRect w) / 2, cam_bottom = - (snd (boundingRect w) / 2),
                        cam_near = 1, cam_far = 1000, position_z = 1\<rparr>,
        scene := Some (map (\<lambda>i. \<lparr>geometry = boundingRect w, mesh_material = length (materials w) + i\<rparr>)
                         [0..<length (screenCanvases w)]),
        xTermLayerMap := fold (\<lambda>(cv, i). Map_set cv (length (materials w) + i))
                           (zip (screenCanvases w) [0..<length (screenCanvases w)]) (xTermLayerMap c),
        clock := Some \<lparr>started = False\<rparr>,
        passes := (length (passStore w) + length ps)
                    # [length (passStore w)..<length (passStore w) + length ps],
        composer := Some \<lparr>composer_passes = (length (passStore w) + length ps)
                    # [length (passStore w)..<length (passStore w) + length ps],
                    composer_size = None\<rparr>,
        shaderPasses := filter (\<lambda>r. \<not> instanceof_EffectPass ((passStore w @ stored_passes ps) ! r))
                          [length (passStore w)..<length (passStore w) + length ps],
        layerObserver := Some (xterm_screen t)\<rparr>,
      w\<lparr>console := console w @ [Log ''checked length of passes'', Log ''3'', Log ''2'', Log ''1'',
                                  Log ''end of _init''],
        passStore := passStore w @ stored_passes ps,
        opacityZero := opacityZero w @ screenCanvases w,
        nextElement := Suc (nextElement w),
        textures := textures w @ map layer_texture (screenCanvases w),
        materials := materials w @
          map (\<lambda>i. \<lparr>mat_color = 0xFFFFFF, mat_map = length (textures w) + i, transparent = True\<rparr>)
            [0..<length (screenCanvases w)],
        appended := appended w @ [(termRef t, nextElement w)],
        resizeListeners := resizeListeners w @ [ResizeSync, ResizeOnce]\<rparr>)"
proof -
  let ?n = "length (passStore w)"
  have st: "(passStore w @ ps @ [new_RenderPass])
      [last ((?n + length ps) # [?n..<?n + length ps]) :=
         ((passStore w @ ps @ [new_RenderPass]) ! last ((?n + length ps) # [?n..<?n + length ps]))
           \<lparr>renderToScreen := True\<rparr>] = passStore w @ stored_passes ps"
    using store_update_last[OF ne, of "passStore w" new_RenderPass "\<lambda>p. p\<lparr>renderToScreen := True\<rparr>"]
    by (simp add: last_created[OF ne] stored_passes_def del: last.simps)
  show ?thesis
    unfolding init_body_def
    apply (simp add: Let_def console_log_def t
        setupScene_closed[where t = t and ct = "termRef t"]
        init_try_ok[where ec = "\<lparr>composer_passes = [], composer_size = None\<rparr>", OF _ rp ap]
        del: last.simps)
    apply (simp add: st del: last.simps)
    done
qed


lemma addPasses_frame:
  "\<exists>X. snd (addPasses h i ps c) = c\<lparr>composer := X\<rparr>"
proof (induction ps arbitrary: i c)
  case Nil
  have "c = c\<lparr>composer := composer c\<rparr>" by simp
  then show ?case by (metis addPasses.simps(1) snd_conv)
next
  case (Cons p ps)
  show ?case
  proof (cases "composer c")
    case None
    have "c = c\<lparr>composer := composer c\<rparr>" by simp
    then show ?thesis using None by (simp, blast)
  next
    case (Some ec)
    show ?thesis
    proof (cases "throws h (AddPass i)")
      case (Some e)
      have "c = c\<lparr>composer := composer c\<rparr>" by simp
      then show ?thesis using Some \<open>composer c = Some ec\<close> by (simp, blast)
    next
      case None
      from Cons.IH[of "Suc i" "c\<lparr>composer := Some (ec\<lparr>composer_passes := composer_passes ec @ [p]\<rparr>)\<rparr>"]
      show ?thesis using None \<open>composer c = Some ec\<close> by simp
    qed
  qed
qed


lemma init_try_sel:
  assumes "init_try h created c w = (out, c', w')"
  shows "scene c' = scene c \<and> xTermLayerMap c' = xTermLayerMap c \<and> isInit c' = isInit c \<and>
         xTermScreen c' = xTermScreen c \<and>
         textures w' = textures w \<and> materials w' = materials w"
proof (cases "throws h New_RenderPass")
  case (Some e)
  then show ?thesis using assms by (simp add: init_try_def)
next
  case None
  let ?c1 = "c\<lparr>passes := length (passStore w) # created\<rparr>"
  obtain X where a: "snd (addPasses h 0 (length (passStore w) # created) ?c1) = ?c1\<lparr>composer := X\<rparr>"
    using addPasses_frame by blast
  obtain o2 where a': "addPasses h 0 (length (passStore w) # created) ?c1 = (o2, ?c1\<lparr>composer := X\<rparr>)"
    using a by (cases "addPasses h 0 (length (passStore w) # created) ?c1") simp
  show ?thesis
  proof (cases o2)
    case Returned
    show ?thesis
      using assms None a' Returned
      by (auto simp add: init_try_def Let_def simp del: addPasses.simps)
  next
    case (Thrown e)
    show ?thesis
      using assms None a' Thrown
      by (auto simp add: init_try_def Let_def simp del: addPasses.simps)
  qed
qed


lemma init_body_scene:
  assumes "term' c = Some t"
  shows "\<exists>c' w'. init_body h ps c w = (Returned, c', w') \<and> isInit c' \<and>
     scene c' = Some (map (\<lambda>i. \<lparr>geometry = boundingRect w, mesh_material = length (materials w) + i\<rparr>)
                         [0..<length (screenCanvases w)]) \<and>
     xTermLayerMap c' = fold (\<lambda>(cv, i). Map_set cv (length (materials w) + i))
                           (zip (screenCanvases w) [0..<length (screenCanvases w)]) (xTermLayerMap c) \<and>
     textures w' = textures w @ map layer_texture (screenCanvases w) \<and>
     materials w' = materials w @
          map (\<lambda>i. \<lparr>mat_color = 0xFFFFFF, mat_map = length (textures w) + i, transparent = True\<rparr>)
            [0..<length (screenCanvases w)]"
  unfolding init_body_def
  by (auto simp: Let_def console_log_def console_error_def assms
      setupScene_closed[where t = t and ct = "termRef t"]
      split: prod.splits outcome.splits dest!: init_try_sel)

lemma init_Some:
  "createPasses_try h = Inr ps \<Longrightarrow>
   init h c w = init_body h ps c (w\<lparr>console := console w @ [Log ''start init'', Log ''made passes'']\<rparr>)"
  by (frule createPasses_try_Inr) (simp add: init_def createPasses_def console_log_def)

lemma example_host_ok:
  "createPasses_try example_host =
     Inr [new_EffectPass example_host CustomEffectPass
            [new_Effect ''crtEffect'' crtFragmentShader NORMAL [(''separation'', 0.5)]],
          new_EffectPass example_host EffectPass
            [new_Effect ''curvedFragmentEffect'' curvedFragmentShader NORMAL []]]"
  by (simp add: createPasses_try_def lib_def example_host_def)

text \<open>
  C5. An exception of the factory's \<^verbatim>\<open>try\<close> block is caught and logged, the factory
  returns \<^verbatim>\<open>undefined\<close>, and \<^verbatim>\<open>_init\<close> returns with the component as it was; the
  world differs only by the console, which holds the two progress lines and the one
  error: nothing is created, registered or retried.
\<close>

theorem init_atomic_when_factory_throws:
  assumes "createPasses_try h = Inl e"
  shows "createPasses h con = (None, con @ [LogError e]) \<and>
         init h c w =
           (Returned, c,
            w\<lparr>console := console w @ [Log ''start init'', LogError e, Log ''made passes'']\<rparr>)"
  using assms by (simp add: createPasses_def init_def console_log_def)

lemma failing_host_throws: "createPasses_try failing_host = Inl (Error ''shader'')"
  by (simp add: createPasses_try_def lib_def failing_host_def example_host_def)

theorem init_atomic_when_factory_throws_witness:
  "init failing_host (constructor \<lparr>isTermActive = True, onDecorated_prop = False\<rparr>) example_world =
     (Returned, constructor \<lparr>isTermActive = True, onDecorated_prop = False\<rparr>,
      example_world\<lparr>console := [Log ''start init'', LogError (Error ''shader''), Log ''made passes'']\<rparr>)"
  using init_atomic_when_factory_throws[OF failing_host_throws, of "[]"
      "constructor \<lparr>isTermActive = True, onDecorated_prop = False\<rparr>" example_world]
  by (simp add: example_world_def)

text \<open>
  C10. In both versions of the component, \<^verbatim>\<open>_onDecorated\<close> with a null term only
  forwards the call to the chained prop and leaves the component as it was; and once
  \<^verbatim>\<open>_isInit\<close> is true, \<^verbatim>\<open>_onDecorated\<close> with any term only forwards the call and
  leaves the component as it was.
\<close>

theorem onDecorated_idempotent:
  "onDecorated h None c w = (Returned, c, forward_onDecorated None c w) \<and>
   onDecorated_v1 init_v1 None c w = (Returned, c, forward_onDecorated None c w) \<and>
   (isInit c \<longrightarrow>
      onDecorated h t c w = (Returned, c, forward_onDecorated t c w) \<and>
      onDecorated_v1 init_v1 t c w = (Returned, c, forward_onDecorated t c w))"
  by (simp add: onDecorated_def onDecorated_v1_def Let_def)

theorem onDecorated_idempotent_witness:
  "isInit (fst (snd (onDecorated example_host (Some example_term)
       (constructor \<lparr>isTermActive = True, onDecorated_prop = True\<rparr>) example_world))) \<and>
   onDecorated example_host (Some example_term)
     (fst (snd (onDecorated example_host (Some example_term)
       (constructor \<lparr>isTermActive = True, onDecorated_prop = True\<rparr>) example_world)))
     (snd (snd (onDecorated example_host (Some example_term)
       (constructor \<lparr>isTermActive = True, onDecorated_prop = True\<rparr>) example_world)))
   = (Returned,
      fst (snd (onDecorated example_host (Some example_term)
       (constructor \<lparr>isTermActive = True, onDecorated_prop = True\<rparr>) example_world)),
      (snd (snd (onDecorated example_host (Some example_term)
       (constructor \<lparr>isTermActive = True, onDecorated_prop = True\<rparr>) example_world)))
        \<lparr>decoratedCalls := [Some example_term, Some example_term]\<rparr>)"
proof -
  let ?c0 = "constructor \<lparr>isTermActive = True, onDecorated_prop = True\<rparr>"
  let ?r = "onDecorated example_host (Some example_term) ?c0 example_world"
  have t: "term' (?c0\<lparr>term' := Some example_term\<rparr>) = Some example_term" by simp
  have ne: "[new_EffectPass example_host CustomEffectPass
            [new_Effect ''crtEffect'' crtFragmentShader NORMAL [(''separation'', 0.5)]],
          new_EffectPass example_host EffectPass
            [new_Effect ''curvedFragmentEffect'' curvedFragmentShader NORMAL []]] \<noteq> []" by simp
  have rp: "throws example_host New_RenderPass = None" by (simp add: example_host_def)
  have ap: "\<And>j. throws example_host (AddPass j) = None" by (simp add: example_host_def)
  have r: "?r = init example_host (?c0\<lparr>term' := Some example_term\<rparr>)
                  (example_world\<lparr>decoratedCalls := [Some example_term]\<rparr>)"
    by (simp add: onDecorated_def forward_onDecorated_def constructor_def example_world_def)
  have i: "isInit (fst (snd ?r))"
    unfolding r init_Some[OF example_host_ok] init_body_ok[OF t ne rp ap] by simp
  have p: "onDecorated_prop (props (fst (snd ?r)))"
    unfolding r init_Some[OF example_host_ok] init_body_ok[OF t ne rp ap]
    by (simp add: constructor_def)
  have d: "decoratedCalls (snd (snd ?r)) = [Some example_term]"
    unfolding r init_Some[OF example_host_ok] init_body_ok[OF t ne rp ap]
    by (simp add: example_world_def)
  from onDecorated_idempotent[of example_host "fst (snd ?r)" "snd (snd ?r)" "init example_host"
      "Some example_term", THEN conjunct2, THEN conjunct2, rule_format, OF i, THEN conjunct1]
  show ?thesis using i p d by (simp add: forward_onDecorated_def)
qed

text \<open>
  C3. When \<^verbatim>\<open>_init\<close> gets past the check of the pass list, it returns with a scene
  of exactly one mesh per render-layer canvas found under the xterm screen, in order:
  mesh \<open>i\<close> is a plane of the size of the terminal's bounding rectangle whose own
  material is textured with canvas \<open>i\<close>; the materials are pairwise distinct; and,
  the canvases being distinct elements, the layer map sends canvas \<open>i\<close> to the material
  of mesh \<open>i\<close>. This holds whatever the \<^verbatim>\<open>try\<close> block of \<^verbatim>\<open>_init\<close> does.
\<close>

theorem init_one_mesh_per_canvas:
  assumes "createPasses_try h = Inr ps" and "term' c = Some t"
  shows "\<exists>c' w' meshes. init h c w = (Returned, c', w') \<and> scene c' = Some meshes \<and>
          length meshes = length (screenCanvases w) \<and>
          distinct (map mesh_material meshes) \<and>
          (\<forall>i < length (screenCanvases w).
              geometry (meshes ! i) = boundingRect w \<and>
              mesh_material (meshes ! i) < length (materials w') \<and>
              mat_map (materials w' ! mesh_material (meshes ! i)) < length (textures w') \<and>
              tex_image (textures w' ! mat_map (materials w' ! mesh_material (meshes ! i)))
                 = Some (screenCanvases w ! i) \<and>
              (distinct (screenCanvases w) \<longrightarrow>
                 Map_get (xTermLayerMap c') (screenCanvases w ! i) = Some (mesh_material (meshes ! i))))"
proof -
  let ?w = "w\<lparr>console := console w @ [Log ''start init'', Log ''made passes'']\<rparr>"
  from init_body_scene[OF assms(2), of h ps ?w]
  obtain c' w' where r: "init_body h ps c ?w = (Returned, c', w')"
    and sc: "scene c' = Some (map (\<lambda>i. \<lparr>geometry = boundingRect w, mesh_material = length (materials w) + i\<rparr>)
                         [0..<length (screenCanvases w)])"
    and lm: "xTermLayerMap c' = fold (\<lambda>(cv, i). Map_set cv (length (materials w) + i))
                           (zip (screenCanvases w) [0..<length (screenCanvases w)]) (xTermLayerMap c)"
    and tx: "textures w' = textures w @ map layer_texture (screenCanvases w)"
    and mt: "materials w' = materials w @
          map (\<lambda>i. \<lparr>mat_color = 0xFFFFFF, mat_map = length (textures w) + i, transparent = True\<rparr>)
            [0..<length (screenCanvases w)]"
    by auto
  have d: "distinct (map mesh_material (map (\<lambda>i. \<lparr>geometry = boundingRect w,
              mesh_material = length (materials w) + i\<rparr>) [0..<length (screenCanvases w)]))"
    by (simp add: distinct_map comp_def inj_on_def)
  have m: "\<And>i. distinct (screenCanvases w) \<Longrightarrow> i < length (screenCanvases w) \<Longrightarrow>
      Map_get (xTermLayerMap c') (screenCanvases w ! i) = Some (length (materials w) + i)"
    using fold_Map_set_nth[of "screenCanvases w" _ "[0..<length (screenCanvases w)]"
        "\<lambda>i. length (materials w) + i" "xTermLayerMap c"]
    by (simp add: lm Map_get_def)
  show ?thesis
    unfolding init_Some[OF assms(1)] r
    using d m by (simp add: sc tx mt nth_append layer_texture_def)
qed


theorem init_one_mesh_per_canvas_witness:
  "\<exists>c' w' meshes. init example_host example_component example_world = (Returned, c', w') \<and>
      scene c' = Some meshes \<and> length meshes = 2 \<and>
      tex_image (textures w' ! mat_map (materials w' ! mesh_material (meshes ! 0))) = Some 10 \<and>
      tex_image (textures w' ! mat_map (materials w' ! mesh_material (meshes ! 1))) = Some 11 \<and>
      Map_get (xTermLayerMap c') 10 = Some (mesh_material (meshes ! 0)) \<and>
      Map_get (xTermLayerMap c') 11 = Some (mesh_material (meshes ! 1))"
proof -
  have t: "term' example_component = Some example_term"
    by (simp add: example_component_def)
  from init_one_mesh_per_canvas[OF example_host_ok t, of example_world]
  obtain c' w' meshes where r: "init example_host example_component example_world = (Returned, c', w')"
    and s: "scene c' = Some meshes" and l: "length meshes = length (screenCanvases example_world)"
    and a: "\<forall>i < length (screenCanvases example_world).
              geometry (meshes ! i) = boundingRect example_world \<and>
              mesh_material (meshes ! i) < length (materials w') \<and>
              mat_map (materials w' ! mesh_material (meshes ! i)) < length (textures w') \<and>
              tex_image (textures w' ! mat_map (materials w' ! mesh_material (meshes ! i)))
                 = Some (screenCanvases example_world ! i) \<and>
              (distinct (screenCanvases example_world) \<longrightarrow>
                 Map_get (xTermLayerMap c') (screenCanvases example_world ! i)
                   = Some (mesh_material (meshes ! i)))"
    by blast
  have sc: "screenCanvases example_world = [10, 11]" by (simp add: example_world_def)
  from a[rule_format, of 0] a[rule_format, of 1] l
  have "length meshes = 2 \<and>
      tex_image (textures w' ! mat_map (materials w' ! mesh_material (meshes ! 0))) = Some 10 \<and>
      tex_image (textures w' ! mat_map (materials w' ! mesh_material (meshes ! 1))) = Some 11 \<and>
      Map_get (xTermLayerMap c') 10 = Some (mesh_material (meshes ! 0)) \<and>
      Map_get (xTermLayerMap c') 11 = Some (mesh_material (meshes ! 1))"
    unfolding sc by simp
  with r s show ?thesis by blast
qed

text \<open>
  C1. When the factory returns its passes and neither the RenderPass constructor nor
  \<^verbatim>\<open>addPass\<close> throws, \<^verbatim>\<open>_init\<close> returns with \<^verbatim>\<open>_isInit\<close> set and the composer's
  chain equal to \<^verbatim>\<open>this.passes\<close>: distinct objects, first a RenderPass, then the
  factory's passes in order; the last pass of the chain has \<^verbatim>\<open>renderToScreen\<close> true and
  every other pass has it false.
\<close>

theorem init_pass_chain:
  assumes "createPasses_try h = Inr ps" and "term' c = Some t"
    and "throws h New_RenderPass = None" and "\<And>j. throws h (AddPass j) = None"
  shows "\<exists>c' w' ec. init h c w = (Returned, c', w') \<and> isInit c' \<and>
      composer c' = Some ec \<and> composer_passes ec = passes c' \<and> distinct (passes c') \<and>
      map (\<lambda>r. passStore w' ! r) (composer_passes ec)
        = new_RenderPass # butlast ps @ [(last ps)\<lparr>renderToScreen := True\<rparr>] \<and>
      map (\<lambda>r. renderToScreen (passStore w' ! r)) (composer_passes ec)
        = replicate (length ps) False @ [True]"
proof -
  let ?w = "w\<lparr>console := console w @ [Log ''start init'', Log ''made passes'']\<rparr>"
  note ps = createPasses_try_Inr[OF assms(1)]
  have ne: "ps \<noteq> []" using ps by simp
  have chain: "map ((!) (passStore w @ stored_passes ps))
      ((length (passStore w) + length ps) # [length (passStore w)..<length (passStore w) + length ps])
      = new_RenderPass # butlast ps @ [(last ps)\<lparr>renderToScreen := True\<rparr>]"
    using map_nth_middle[of "passStore w" "butlast ps @ [(last ps)\<lparr>renderToScreen := True\<rparr>]"
        "[new_RenderPass]"] ne
    by (simp add: stored_passes_def nth_append)
  have flags: "map renderToScreen (new_RenderPass # butlast ps @ [(last ps)\<lparr>renderToScreen := True\<rparr>])
      = replicate (length ps) False @ [True]"
    by (simp add: ps new_RenderPass_def new_EffectPass_def)
  have flags': "map (\<lambda>r. renderToScreen ((passStore w @ stored_passes ps) ! r))
      ((length (passStore w) + length ps) # [length (passStore w)..<length (passStore w) + length ps])
      = replicate (length ps) False @ [True]"
    using arg_cong[OF chain, of "map renderToScreen"] flags by (simp add: comp_def)
  show ?thesis
    unfolding init_Some[OF assms(1)] init_body_ok[OF assms(2) ne assms(3,4)]
    using chain flags' by simp
qed

theorem init_pass_chain_witness:
  "\<exists>c' w' ec. init example_host example_component example_world = (Returned, c', w') \<and>
      composer c' = Some ec \<and>
      map (\<lambda>r. pass_class (passStore w' ! r)) (composer_passes ec)
        = [RenderPass, CustomEffectPass, EffectPass] \<and>
      map (\<lambda>r. renderToScreen (passStore w' ! r)) (composer_passes ec) = [False, False, True]"
proof -
  have t: "term' example_component = Some example_term"
    by (simp add: example_component_def)
  have rp: "throws example_host New_RenderPass = None" by (simp add: example_host_def)
  have ap: "\<And>j. throws example_host (AddPass j) = None" by (simp add: example_host_def)
  let ?ps = "[new_EffectPass example_host CustomEffectPass
            [new_Effect ''crtEffect'' crtFragmentShader NORMAL [(''separation'', 0.5)]],
          new_EffectPass example_host EffectPass
            [new_Effect ''curvedFragmentEffect'' curvedFragmentShader NORMAL []]]"
  from init_pass_chain[OF example_host_ok t rp ap, of example_world]
  obtain c' w' ec where all: "init example_host example_component example_world = (Returned, c', w') \<and>
      isInit c' \<and> composer c' = Some ec \<and> composer_passes ec = passes c' \<and> distinct (passes c') \<and>
      map (\<lambda>r. passStore w' ! r) (composer_passes ec)
        = new_RenderPass # butlast ?ps @ [(last ?ps)\<lparr>renderToScreen := True\<rparr>] \<and>
      map (\<lambda>r. renderToScreen (passStore w' ! r)) (composer_passes ec)
        = replicate (length ?ps) False @ [True]"
    by (elim exE) (rule that)
  note r = all[THEN conjunct1]
  note c = all[THEN conjunct2, THEN conjunct2, THEN conjunct1]
  note m = all[THEN conjunct2, THEN conjunct2, THEN conjunct2, THEN conjunct2, THEN conjunct2,
      THEN conjunct1]
  note f = all[THEN conjunct2, THEN conjunct2, THEN conjunct2, THEN conjunct2, THEN conjunct2,
      THEN conjunct2]
  have "map pass_class (map (\<lambda>r. passStore w' ! r) (composer_passes ec))
      = map pass_class (new_RenderPass # butlast ?ps @ [(last ?ps)\<lparr>renderToScreen := True\<rparr>])"
    by (rule arg_cong[OF m])
  also have "\<dots> = [RenderPass, CustomEffectPass, EffectPass]"
    by (simp add: new_RenderPass_def new_EffectPass_def)
  finally have "map (\<lambda>r. pass_class (passStore w' ! r)) (composer_passes ec)
        = [RenderPass, CustomEffectPass, EffectPass] \<and>
      map (\<lambda>r. renderToScreen (passStore w' ! r)) (composer_passes ec) = [False, False, True]"
    using f by (simp add: comp_def numeral_2_eq_2)
  with r c show ?thesis
    by (intro exI[of _ c'] exI[of _ w'] exI[of _ ec]) simp
qed


subsection \<open>The render loop and the tab state\<close>


lemma set_needsUpdate_raf:
  "rafPending (set_needsUpdate ms w) = rafPending w \<and> rafNext (set_needsUpdate ms w) = rafNext w"
  by (induction ms arbitrary: w) (simp_all add: Let_def)

lemma composer_render_raf:
  "rafPending (snd (composer_render h rs w)) = rafPending w \<and>
   rafNext (snd (composer_render h rs w)) = rafNext w"
  by (induction rs arbitrary: w) (simp_all add: Let_def split: prod.splits outcome.splits)

lemma composer_render_raf':
  "composer_render h rs w = (out, w') \<Longrightarrow> rafPending w' = rafPending w \<and> rafNext w' = rafNext w"
  using composer_render_raf[of h rs w] by simp

lemma render_frame_raf:
  assumes "render_frame h ms k c w = (out, c', w')"
  shows "c' = c\<lparr>animationId := Some (rafNext w)\<rparr> \<and>
         rafPending w' = rafPending w @ [(rafNext w, ms)] \<and> rafNext w' = Suc (rafNext w)"
  using assms
  by (auto simp: render_frame_def Let_def set_needsUpdate_raf
      split: if_splits option.splits prod.splits dest!: composer_render_raf')



lemma initialized_eq:
  "initialized =
     snd (init_body example_host
        [new_EffectPass example_host CustomEffectPass
            [new_Effect ''crtEffect'' crtFragmentShader NORMAL [(''separation'', 0.5)]],
          new_EffectPass example_host EffectPass
            [new_Effect ''curvedFragmentEffect'' curvedFragmentShader NORMAL []]]
        ((constructor inactive_props)\<lparr>term' := Some example_term\<rparr>)
        (example_world\<lparr>console := [Log ''start init'', Log ''made passes'']\<rparr>))"
  by (simp add: initialized_def onDecorated_def forward_onDecorated_def constructor_def
      inactive_props_def init_Some[OF example_host_ok] example_world_def)

lemma initialized_facts:
  "isInit (fst initialized)" "props (fst initialized) = inactive_props"
  "shaderPasses (fst initialized) = []" "xTermLayerMap (fst initialized) = [(10, 0), (11, 1)]"
  "animationId (fst initialized) = None"
  "rafPending (snd initialized) = []" "rafNext (snd initialized) = 0"
proof -
  have t: "term' ((constructor inactive_props)\<lparr>term' := Some example_term\<rparr>) = Some example_term"
    by simp
  have ne: "[new_EffectPass example_host CustomEffectPass
            [new_Effect ''crtEffect'' crtFragmentShader NORMAL [(''separation'', 0.5)]],
          new_EffectPass example_host EffectPass
            [new_Effect ''curvedFragmentEffect'' curvedFragmentShader NORMAL []]] \<noteq> []" by simp
  have rp: "throws example_host New_RenderPass = None" by (simp add: example_host_def)
  have ap: "\<And>j. throws example_host (AddPass j) = None" by (simp add: example_host_def)
  note e = initialized_eq[unfolded init_body_ok[OF t ne rp ap]]
  show "isInit (fst initialized)" by (simp add: e)
  show "props (fst initialized) = inactive_props" by (simp add: e constructor_def)
  show "shaderPasses (fst initialized) = []"
    by (simp add: e example_world_def stored_passes_def instanceof_EffectPass_def new_EffectPass_def
        upt_rec[of 0] upt_rec[of 1])
  show "xTermLayerMap (fst initialized) = [(10, 0), (11, 1)]"
    by (simp add: e example_world_def constructor_def upt_rec[of 0] upt_rec[of 1])
  show "animationId (fst initialized) = None" by (simp add: e constructor_def)
  show "rafPending (snd initialized) = []" by (simp add: e example_world_def)
  show "rafNext (snd initialized) = 0" by (simp add: e example_world_def)
qed



lemma startAnimationLoop_raf:
  assumes "shaderPasses c = []" and "startAnimationLoop h c w = (out, c', w')"
  shows "c' = c\<lparr>animationId := Some (rafNext w)\<rparr> \<and>
         rafPending w' = rafPending w @ [(rafNext w, map snd (xTermLayerMap c))] \<and>
         rafNext w' = Suc (rafNext w)"
proof -
  from assms have "render_frame h (map snd (xTermLayerMap c)) 0 c w = (out, c', w')"
    by (simp add: startAnimationLoop_def)
  from render_frame_raf[OF this] show ?thesis .
qed

lemma activated_facts:
  "fst activated = (fst initialized)\<lparr>animationId := Some 0, props := active_props\<rparr>"
  "rafPending (snd activated) = [(0, [0, 1])]" "rafNext (snd activated) = 1"
proof -
  note f = initialized_facts
  obtain out c' w' where s: "startAnimationLoop example_host (fst initialized) (snd initialized)
      = (out, c', w')"
    by (cases "startAnimationLoop example_host (fst initialized) (snd initialized)")
  from startAnimationLoop_raf[OF f(3) s]
  have c': "c' = (fst initialized)\<lparr>animationId := Some 0\<rparr>"
    and p: "rafPending w' = [(0, [0, 1])]" and n: "rafNext w' = 1"
    by (simp_all add: f)
  have a: "activated = (c'\<lparr>props := active_props\<rparr>, w')"
    using s by (simp add: activated_def componentWillReceiveProps_def f inactive_props_def
        active_props_def)
  show "fst activated = (fst initialized)\<lparr>animationId := Some 0, props := active_props\<rparr>"
    by (simp add: a c')
  show "rafPending (snd activated) = [(0, [0, 1])]" by (simp add: a p)
  show "rafNext (snd activated) = 1" by (simp add: a n)
qed

lemma initialized_term_clock:
  "term' (fst initialized) = Some example_term" "clock (fst initialized) = Some \<lparr>started = False\<rparr>"
proof -
  have t: "term' ((constructor inactive_props)\<lparr>term' := Some example_term\<rparr>) = Some example_term"
    by simp
  have ne: "[new_EffectPass example_host CustomEffectPass
            [new_Effect ''crtEffect'' crtFragmentShader NORMAL [(''separation'', 0.5)]],
          new_EffectPass example_host EffectPass
            [new_Effect ''curvedFragmentEffect'' curvedFragmentShader NORMAL []]] \<noteq> []" by simp
  have rp: "throws example_host New_RenderPass = None" by (simp add: example_host_def)
  have ap: "\<And>j. throws example_host (AddPass j) = None" by (simp add: example_host_def)
  note e = initialized_eq[unfolded init_body_ok[OF t ne rp ap]]
  show "term' (fst initialized) = Some example_term" by (simp add: e)
  show "clock (fst initialized) = Some \<lparr>started = False\<rparr>" by (simp add: e)
qed

text \<open>
  When the term became active before the first resize event, \<^verbatim>\<open>resizeOnce\<close> starts a
  second loop; the component tracks the newer frame request only, and the older one is
  still pending after the term has become inactive.
\<close>

lemma older_loop_survives_cancel:
  "rafPending (snd resized) = [(0, [0, 1]), (1, [0, 1])] \<and>
   animationId (fst resized) = Some 1 \<and>
   rafPending (snd (snd (componentWillReceiveProps example_host inactive_props
                           (fst resized) (snd resized)))) = [(0, [0, 1])]"
proof -
  note f = initialized_facts initialized_term_clock
  note a = activated_facts
  let ?c = "(fst activated)\<lparr>clock := Some \<lparr>started = True\<rparr>\<rparr>"
  let ?w = "(snd activated)\<lparr>resizeListeners := remove1 ResizeOnce (resizeListeners (snd activated))\<rparr>"
  obtain out c' w' where s: "startAnimationLoop example_host ?c ?w = (out, c', w')"
    by (cases "startAnimationLoop example_host ?c ?w")
  have sp: "shaderPasses ?c = []" by (simp add: a f)
  from startAnimationLoop_raf[OF sp s]
  have c': "c' = ?c\<lparr>animationId := Some 1\<rparr>"
    and p: "rafPending w' = [(0, [0, 1]), (1, [0, 1])]"
    by (simp_all add: a f)
  have r: "resized = (c', w')"
    using s by (simp add: resized_def resizeOnce_def a f)
  have i: "isInit c'" "isTermActive (props c')" "animationId c' = Some 1"
    by (simp_all add: c' a f active_props_def)
  have "componentWillReceiveProps example_host inactive_props c' w'
      = (Returned, c', cancelAnimationLoop c' w')"
    using i by (simp add: componentWillReceiveProps_def inactive_props_def)
  then have "rafPending (snd (snd (componentWillReceiveProps example_host inactive_props c' w')))
      = [(0, [0, 1])]"
    using i p by (simp add: cancelAnimationLoop_def)
  then show ?thesis unfolding r using p i by simp
qed

subsection \<open>Resize\<close>

text \<open>
  Both passes of the factory are EffectPass instances, so after \<^verbatim>\<open>_init\<close>
  \<^verbatim>\<open>_shaderPasses\<close> is empty: the component assigns no uniform of theirs and leaves
  them to the library.
\<close>

lemma init_shaderPasses_empty:
  assumes "createPasses_try h = Inr ps" and "term' c = Some t"
    and "throws h New_RenderPass = None" and "\<And>j. throws h (AddPass j) = None"
  shows "shaderPasses (fst (snd (init h c w))) = []"
proof -
  note ps = createPasses_try_Inr[OF assms(1)]
  have ne: "ps \<noteq> []" using ps by simp
  have two: "[length (passStore w)..<length (passStore w) + length ps]
      = [length (passStore w), Suc (length (passStore w))]"
    by (simp add: ps upt_rec[of "length (passStore w)"] upt_rec[of "Suc (length (passStore w))"])
  show ?thesis
    unfolding init_Some[OF assms(1)] init_body_ok[OF assms(2) ne assms(3,4)]
    by (simp add: two) (simp add: ps stored_passes_def nth_append instanceof_EffectPass_def
        new_EffectPass_def)
qed













subsection \<open>Canvas replacement\<close>










lemma initialized_layers:
  "textures (snd initialized) = [layer_texture 10, layer_texture 11]"
  "materials (snd initialized) =
     [\<lparr>mat_color = 0xFFFFFF, mat_map = 0, transparent = True\<rparr>,
      \<lparr>mat_color = 0xFFFFFF, mat_map = 1, transparent = True\<rparr>]"
proof -
  have t: "term' ((constructor inactive_props)\<lparr>term' := Some example_term\<rparr>) = Some example_term"
    by simp
  have ne: "[new_EffectPass example_host CustomEffectPass
            [new_Effect ''crtEffect'' crtFragmentShader NORMAL [(''separation'', 0.5)]],
          new_EffectPass example_host EffectPass
            [new_Effect ''curvedFragmentEffect'' curvedFragmentShader NORMAL []]] \<noteq> []" by simp
  have rp: "throws example_host New_RenderPass = None" by (simp add: example_host_def)
  have ap: "\<And>j. throws example_host (AddPass j) = None" by (simp add: example_host_def)
  note e = initialized_eq[unfolded init_body_ok[OF t ne rp ap]]
  show "textures (snd initialized) = [layer_texture 10, layer_texture 11]"
    by (simp add: e example_world_def)
  show "materials (snd initialized) =
     [\<lparr>mat_color = 0xFFFFFF, mat_map = 0, transparent = True\<rparr>,
      \<lparr>mat_color = 0xFFFFFF, mat_map = 1, transparent = True\<rparr>]"
    by (simp add: e example_world_def upt_rec[of 0] upt_rec[of 1])
qed



text \<open>
  The layer map is never updated with the added canvas: when the canvas that replaced
  canvas 10 is replaced in turn, the lookup yields \<^verbatim>\<open>undefined\<close>, the handler throws a
  TypeError, and the material keeps the texture of the canvas that has left the DOM.
\<close>

lemma second_replacement_throws:
  "fst (onCanvasReplacement [\<lparr>removedNodes = [20], addedNodes = [30]\<rparr>] (fst initialized)
          (snd (onCanvasReplacement [replace_first] (fst initialized) (snd initialized))))
      = Thrown (TypeError ''map'') \<and>
   materials (snd (onCanvasReplacement [\<lparr>removedNodes = [20], addedNodes = [30]\<rparr>] (fst initialized)
          (snd (onCanvasReplacement [replace_first] (fst initialized) (snd initialized)))))
      = materials (snd (onCanvasReplacement [replace_first] (fst initialized) (snd initialized))) \<and>
   tex_image (textures (snd (onCanvasReplacement [replace_first] (fst initialized) (snd initialized)))
      ! mat_map (materials (snd (onCanvasReplacement [replace_first] (fst initialized)
                                   (snd initialized))) ! 0)) = Some 20"
  by (simp add: onCanvasReplacement_def replace_first_def
      replaceTexture_def Let_def new_CanvasTexture_def set_minFilter_def Map_get_def
      initialized_facts(4) initialized_layers layer_texture_def)


end
